theory Spec2Isabelle
  imports Main "HOL-Library.Word"
begin

unbundle bit_operations_syntax

section \<open>The skeleton Ethernet driver (drivers/net/skeleton.c)\<close>

text \<open>
  The file is a driver template: every access to the Ethernet controller is a comment
  and only the calls into the OS (watchdogs, interrupt control) and into uIP are C
  statements. The model embeds the C statements. A comment is not a statement, so a
  step that the source only describes in a comment does nothing here, with one
  exception: the receive loop reads the buffer and needs a condition, so the delivery
  of a pending frame into the buffer and the test for more frames are taken from the
  specification. Two source lines are not well-formed C (the empty condition of the
  loop in \<open>skel_receive\<close> and one closing brace too many before it); they are discussed
  where \<open>skel_receive\<close> is defined.
\<close>

subsection \<open>Constants\<close>

text \<open>
  \<open>CLK_TCK\<close> (ticks per second) comes from the OS headers, which are outside the
  driver; 100 is the NuttX default. No property below depends on the value.
\<close>

definition CLK_TCK :: nat where
  "CLK_TCK = 100"

definition skeleton_WDDELAY :: nat where
  "skeleton_WDDELAY = 1 * CLK_TCK"

definition skeleton_POLLHSEC :: nat where
  "skeleton_POLLHSEC = 1 * 2"

definition skeleton_TXTIMEOUT :: nat where
  "skeleton_TXTIMEOUT = 60 * CLK_TCK"

definition OK :: int where
  "OK = 0"

text \<open>
  Ethernet types of net/uip/uip-arp.h (host order) and the byte swap of a
  little-endian host. The driver only compares for equality.
\<close>

definition UIP_ETHTYPE_ARP :: "16 word" where
  "UIP_ETHTYPE_ARP = 0x0806"

definition UIP_ETHTYPE_IP :: "16 word" where
  "UIP_ETHTYPE_IP = 0x0800"

definition UIP_ETHTYPE_IP6 :: "16 word" where
  "UIP_ETHTYPE_IP6 = 0x86dd"

definition htons :: "16 word \<Rightarrow> 16 word" where
  "htons w = (push_bit 8 w) OR (drop_bit 8 w)"

subsection \<open>Data\<close>

text \<open>The two watchdogs of the driver and the two expiry handlers it registers.\<close>

datatype wd_id = TxPoll | TxTimeout

datatype wd_entry = PollTimerFn | TxTimeoutFn

text \<open>
  A watchdog is idle or started with a delay and a handler (the handler's argument is
  always the driver structure).
\<close>

datatype wdog = WdIdle | WdArmed nat wd_entry

text \<open>
  The packet buffer \<open>d_buf\<close> as the driver sees it: the type field of the Ethernet
  header (\<open>BUF->type\<close>). \<open>frame_len\<close> is the length the controller reports for a
  received frame. \<open>stack_len\<close> is not data of the frame: it stands for the network
  stack, which is outside the driver, and is the value the stack leaves in \<open>d_len\<close>
  when its input entry point has processed this buffer (0: nothing to send).
\<close>

record eth_frame =
  eth_type :: "16 word"
  frame_len :: nat
  stack_len :: nat

text \<open>The functions of the file, for the call log.\<close>

datatype fn = F_transmit | F_uiptxpoll | F_receive | F_txdone | F_interrupt
  | F_txtimeout | F_polltimer | F_ifup | F_ifdown | F_txavail

text \<open>
  What the driver does to the outside: calls of the OS and of uIP, in order. \<open>Enter f\<close>
  marks the entry into function \<open>f\<close> of the file. \<open>RxPass\<close> marks the start of one
  pass through the body of the receive loop, with the frame the controller had pending
  for it (\<open>None\<close>: nothing was pending). \<open>HwTxDone\<close> is an event of the controller,
  not of the driver: the controller has completed one transmit.
\<close>

datatype event =
    Enter fn
  | RxPass "eth_frame option"
  | EvWdStart wd_id nat wd_entry
  | EvWdCancel wd_id
  | EvUipArpOut
  | EvUipArpIpin
  | EvUipInput
  | EvUipArpArpin
  | EvUipPoll
  | EvUipTimer nat
  | EvUpEnableIrq
  | EvUpDisableIrq
  | EvIrqSave
  | EvIrqRestore
  | EvNdbg
  | HwTxDone

record uip_driver_s =
  d_buf :: eth_frame
  d_len :: nat

text \<open>
  \<open>struct skel_driver_s\<close>, extended to the whole system by the state of the
  interrupt line of the controller (\<open>up_enable_irq\<close>, \<open>up_disable_irq\<close>), the
  interrupt flag of the CPU (\<open>irqsave\<close>, \<open>irqrestore\<close>) and the log of events.
\<close>

record skel_driver_s =
  sk_bifup :: bool
  sk_txpoll :: wdog
  sk_txtimeout :: wdog
  sk_dev :: uip_driver_s

record sys = skel_driver_s +
  irq_line :: bool
  cpu_irq_off :: bool
  trace :: "event list"

text \<open>
  The status register of the controller, as an interrupt would find it. The handler
  has no statement that reads it.
\<close>

record irq_status =
  rx_ready :: bool
  tx_done :: bool

subsection \<open>The OS and uIP, at the interface the driver uses\<close>

definition log :: "event \<Rightarrow> sys \<Rightarrow> sys" where
  "log e s = s\<lparr>trace := trace s @ [e]\<rparr>"

definition wd_set :: "wd_id \<Rightarrow> wdog \<Rightarrow> sys \<Rightarrow> sys" where
  "wd_set w v s = (case w of TxPoll \<Rightarrow> s\<lparr>sk_txpoll := v\<rparr> | TxTimeout \<Rightarrow> s\<lparr>sk_txtimeout := v\<rparr>)"

definition wd_get :: "wd_id \<Rightarrow> sys \<Rightarrow> wdog" where
  "wd_get w s = (case w of TxPoll \<Rightarrow> sk_txpoll s | TxTimeout \<Rightarrow> sk_txtimeout s)"

text \<open>
  Modelled from the spec: the watchdog calls \<open>wd_start\<close> and \<open>wd_cancel\<close> of the OS
  (section 3, Timer: Idle to Armed on arm, Armed to Idle on cancel; section 5: a cancel
  of an idle timer is a no-op, never an error). Starting a started watchdog restarts it.
\<close>

definition wd_start :: "wd_id \<Rightarrow> nat \<Rightarrow> wd_entry \<Rightarrow> sys \<Rightarrow> sys" where
  "wd_start w delay f s = wd_set w (WdArmed delay f) (log (EvWdStart w delay f) s)"

definition wd_cancel :: "wd_id \<Rightarrow> sys \<Rightarrow> sys" where
  "wd_cancel w s = wd_set w WdIdle (log (EvWdCancel w) s)"

text \<open>
  Modelled from the spec: interrupt masking (section 5; section 6,
  \<open>enable_irq()/disable_irq()\<close>). \<open>irqsave\<close> masks the interrupts of the CPU and
  returns the flag it found, \<open>irqrestore\<close> puts a saved flag back; \<open>up_enable_irq\<close> and
  \<open>up_disable_irq\<close> switch the interrupt line of the controller.
\<close>

definition irqsave :: "sys \<Rightarrow> bool \<times> sys" where
  "irqsave s = (cpu_irq_off s, log EvIrqSave (s\<lparr>cpu_irq_off := True\<rparr>))"

definition irqrestore :: "bool \<Rightarrow> sys \<Rightarrow> sys" where
  "irqrestore flags s = log EvIrqRestore (s\<lparr>cpu_irq_off := flags\<rparr>)"

definition up_enable_irq :: "sys \<Rightarrow> sys" where
  "up_enable_irq s = log EvUpEnableIrq (s\<lparr>irq_line := True\<rparr>)"

definition up_disable_irq :: "sys \<Rightarrow> sys" where
  "up_disable_irq s = log EvUpDisableIrq (s\<lparr>irq_line := False\<rparr>)"

definition set_d_len :: "nat \<Rightarrow> sys \<Rightarrow> sys" where
  "set_d_len n s = s\<lparr>sk_dev := (sk_dev s)\<lparr>d_len := n\<rparr>\<rparr>"

text \<open>
  Modelled from the spec: uIP's entry points for frames (section 4.3; section 6,
  \<open>input(buffer, link_type)\<close> may set the length of the buffer, link-layer resolution
  helpers). \<open>uip_input\<close> and \<open>uip_arp_arpin\<close> leave the length of their answer in
  \<open>d_len\<close>; \<open>uip_arp_ipin\<close> and \<open>uip_arp_out\<close> work on the ARP table and on the
  header in the buffer, which the driver does not look at again.
\<close>

definition uip_arp_ipin :: "sys \<Rightarrow> sys" where
  "uip_arp_ipin s = log EvUipArpIpin s"

definition uip_input :: "sys \<Rightarrow> sys" where
  "uip_input s = set_d_len (stack_len (d_buf (sk_dev s))) (log EvUipInput s)"

definition uip_arp_arpin :: "sys \<Rightarrow> sys" where
  "uip_arp_arpin s = set_d_len (stack_len (d_buf (sk_dev s))) (log EvUipArpArpin s)"

definition uip_arp_out :: "sys \<Rightarrow> sys" where
  "uip_arp_out s = log EvUipArpOut s"

text \<open>
  Modelled from the spec: \<open>uip_poll\<close> and \<open>uip_timer\<close> of the network stack (section
  4.4, Poll Protocol): the stack walks its connections, leaves the length of the
  outgoing data of each in \<open>d_len\<close> (0: none) and calls the callback; a non-zero result
  of the callback stops the walk, 0 continues it. The list is the lengths the stack has
  for its connections in this walk.
\<close>

fun uip_walk :: "(sys \<Rightarrow> int \<times> sys) \<Rightarrow> nat list \<Rightarrow> sys \<Rightarrow> int \<times> sys" where
  "uip_walk callback [] s = (0, s)"
| "uip_walk callback (n # conns) s =
     (case callback (set_d_len n s) of
        (r, s') \<Rightarrow> if r \<noteq> 0 then (r, s') else uip_walk callback conns s')"

definition uip_poll :: "(sys \<Rightarrow> int \<times> sys) \<Rightarrow> nat list \<Rightarrow> sys \<Rightarrow> int \<times> sys" where
  "uip_poll callback conns s = uip_walk callback conns (log EvUipPoll s)"

definition uip_timer :: "(sys \<Rightarrow> int \<times> sys) \<Rightarrow> nat list \<Rightarrow> nat \<Rightarrow> sys \<Rightarrow> int \<times> sys" where
  "uip_timer callback conns hsec s = uip_walk callback conns (log (EvUipTimer hsec) s)"

subsection \<open>The functions of the driver\<close>

text \<open>\<open>skel_transmit\<close>: the only statement starts the TX timeout watchdog.\<close>

definition skel_transmit :: "sys \<Rightarrow> int \<times> sys" where
  "skel_transmit s =
     (OK, wd_start TxTimeout skeleton_TXTIMEOUT TxTimeoutFn (log (Enter F_transmit) s))"

definition skel_uiptxpoll :: "sys \<Rightarrow> int \<times> sys" where
  "skel_uiptxpoll s0 =
     (let s = log (Enter F_uiptxpoll) s0;
          s' = (if d_len (sk_dev s) > 0
                then snd (skel_transmit (uip_arp_out s))
                else s)
      in (0, s'))"

text \<open>
  One pass through the body of the loop of \<open>skel_receive\<close>, from the test of
  \<open>BUF->type\<close> on. \<open>ipv6\<close> is \<open>CONFIG_NET_IPv6\<close>. The source closes one brace
  more than it opens between the ARP branch and the \<open>while\<close>; the indentation and the
  comments leave no doubt that both branches belong to the body of the loop.
\<close>

definition skel_receive_pass :: "bool \<Rightarrow> sys \<Rightarrow> sys" where
  "skel_receive_pass ipv6 s =
     (if eth_type (d_buf (sk_dev s)) = htons (if ipv6 then UIP_ETHTYPE_IP6 else UIP_ETHTYPE_IP)
      then
        (let s1 = uip_input (uip_arp_ipin s)
         in if d_len (sk_dev s1) > 0
            then snd (skel_transmit (uip_arp_out s1))
            else s1)
      else if eth_type (d_buf (sk_dev s)) = htons UIP_ETHTYPE_ARP
      then
        (let s1 = uip_arp_arpin s
         in if d_len (sk_dev s1) > 0
            then snd (skel_transmit s1)
            else s1)
      else s)"

text \<open>
  Modelled from the spec: the hardware adapter's \<open>receive_into(buffer)\<close> and
  \<open>poll_pending_rx()\<close> (section 6), which the source leaves as the comment "Copy the
  data data from the hardware to skel->sk_dev.d_buf. Set amount of data in
  skel->sk_dev.d_len" and as the empty condition \<open>while ()\<close> with the comment "While
  there are more packets to be processed". The controller holds a queue of pending
  frames; a pass takes the first one into the buffer, and the loop goes on while the
  queue is not empty (section 4.3, step 3). With nothing pending the buffer keeps what
  it held. The \<open>do ... while\<close> is the source's: the body runs before the first test.
\<close>

definition hw_receive_into :: "eth_frame list \<Rightarrow> sys \<Rightarrow> sys" where
  "hw_receive_into pending s =
     (case pending of
        [] \<Rightarrow> log (RxPass None) s
      | f # _ \<Rightarrow> (log (RxPass (Some f)) s)\<lparr>sk_dev := \<lparr>d_buf = f, d_len = frame_len f\<rparr>\<rparr>)"

function skel_receive_loop :: "bool \<Rightarrow> eth_frame list \<Rightarrow> sys \<Rightarrow> sys" where
  "skel_receive_loop ipv6 pending s =
     (let s1 = skel_receive_pass ipv6 (hw_receive_into pending s);
          pending' = tl pending
      in if pending' \<noteq> [] then skel_receive_loop ipv6 pending' s1 else s1)"
  by pat_completeness auto
termination
  apply (relation "measure (\<lambda>(ipv6, pending, s). length pending)")
   apply simp
  subgoal for ipv6 pending
    by (cases pending) auto
  done

declare skel_receive_loop.simps [simp del]

definition skel_receive :: "bool \<Rightarrow> eth_frame list \<Rightarrow> sys \<Rightarrow> sys" where
  "skel_receive ipv6 pending s = skel_receive_loop ipv6 pending (log (Enter F_receive) s)"

definition skel_txdone :: "nat list \<Rightarrow> sys \<Rightarrow> sys" where
  "skel_txdone conns s =
     snd (uip_poll skel_uiptxpoll conns (wd_cancel TxTimeout (log (Enter F_txdone) s)))"

text \<open>
  \<open>skel_interrupt\<close>: the two calls are unconditional statements. The status of the
  controller is a parameter that no statement reads.
\<close>

definition skel_interrupt :: "bool \<Rightarrow> irq_status \<Rightarrow> eth_frame list \<Rightarrow> nat list \<Rightarrow> sys \<Rightarrow> int \<times> sys" where
  "skel_interrupt ipv6 status pending conns s =
     (OK, skel_txdone conns (skel_receive ipv6 pending (log (Enter F_interrupt) s)))"

definition skel_txtimeout :: "nat list \<Rightarrow> sys \<Rightarrow> sys" where
  "skel_txtimeout conns s =
     snd (uip_poll skel_uiptxpoll conns (log (Enter F_txtimeout) s))"

definition skel_polltimer :: "nat list \<Rightarrow> sys \<Rightarrow> sys" where
  "skel_polltimer conns s =
     wd_start TxPoll skeleton_WDDELAY PollTimerFn
       (snd (uip_timer skel_uiptxpoll conns skeleton_POLLHSEC (log (Enter F_polltimer) s)))"

definition skel_ifup :: "sys \<Rightarrow> int \<times> sys" where
  "skel_ifup s0 =
     (let s1 = log EvNdbg (log (Enter F_ifup) s0);
          s2 = wd_start TxPoll skeleton_WDDELAY PollTimerFn s1;
          s3 = s2\<lparr>sk_bifup := True\<rparr>;
          s4 = up_enable_irq s3
      in (OK, s4))"

definition skel_ifdown :: "sys \<Rightarrow> int \<times> sys" where
  "skel_ifdown s0 =
     (let (flags, s1) = irqsave (log (Enter F_ifdown) s0);
          s2 = up_disable_irq s1;
          s3 = wd_cancel TxPoll s2;
          s4 = wd_cancel TxTimeout s3;
          s5 = s4\<lparr>sk_bifup := False\<rparr>;
          s6 = irqrestore flags s5
      in (OK, s6))"

definition skel_txavail :: "nat list \<Rightarrow> sys \<Rightarrow> int \<times> sys" where
  "skel_txavail conns s0 =
     (let (flags, s1) = irqsave (log (Enter F_txavail) s0);
          s2 = (if sk_bifup s1 then snd (uip_poll skel_uiptxpoll conns s1) else s1);
          s3 = irqrestore flags s2
      in (OK, s3))"

subsection \<open>The environment: expiry of a watchdog, delivery of an interrupt\<close>

text \<open>
  Modelled from the spec: the expiry of a watchdog (section 3, Timer: Armed to Idle on
  expiry, which invokes the callback with its argument; the callback may start the
  watchdog again). An idle watchdog does not expire.
\<close>

definition wd_handler :: "wd_entry \<Rightarrow> nat list \<Rightarrow> sys \<Rightarrow> sys" where
  "wd_handler f conns s =
     (case f of PollTimerFn \<Rightarrow> skel_polltimer conns s | TxTimeoutFn \<Rightarrow> skel_txtimeout conns s)"

definition wd_expire :: "wd_id \<Rightarrow> nat list \<Rightarrow> sys \<Rightarrow> sys" where
  "wd_expire w conns s =
     (case wd_get w s of
        WdIdle \<Rightarrow> s
      | WdArmed delay f \<Rightarrow> wd_handler f conns (wd_set w WdIdle s))"

text \<open>
  Modelled from the spec: the interrupt line of the controller (section 6,
  \<open>enable_irq()/disable_irq()\<close>): the handler attached to the line runs only while the
  line is enabled.
\<close>

definition hw_irq :: "bool \<Rightarrow> irq_status \<Rightarrow> eth_frame list \<Rightarrow> nat list \<Rightarrow> sys \<Rightarrow> sys" where
  "hw_irq ipv6 status pending conns s =
     (if irq_line s then snd (skel_interrupt ipv6 status pending conns s) else s)"

text \<open>
  Modelled from the spec: the TX-done bit of the status (section 4.6). The controller
  sets it when it has completed a transmit; it does so whether or not its interrupt
  line is enabled.
\<close>

definition hw_tx_complete :: "irq_status \<Rightarrow> sys \<Rightarrow> sys" where
  "hw_tx_complete status s = (if tx_done status then log HwTxDone s else s)"

text \<open>
  What can happen to the driver: the three callbacks it registers, an interrupt of the
  controller, and the expiry of one of its watchdogs. All other functions of the file
  are static and run only inside these.
\<close>

datatype call =
    C_ifup
  | C_ifdown
  | C_txavail "nat list"
  | C_irq irq_status "eth_frame list" "nat list"
  | C_expire wd_id "nat list"

fun step :: "bool \<Rightarrow> call \<Rightarrow> sys \<Rightarrow> sys" where
  "step ipv6 C_ifup s = snd (skel_ifup s)"
| "step ipv6 C_ifdown s = snd (skel_ifdown s)"
| "step ipv6 (C_txavail conns) s = snd (skel_txavail conns s)"
| "step ipv6 (C_irq status pending conns) s =
     hw_irq ipv6 status pending conns (hw_tx_complete status s)"
| "step ipv6 (C_expire w conns) s = wd_expire w conns s"

primrec run :: "bool \<Rightarrow> call list \<Rightarrow> sys \<Rightarrow> sys" where
  "run ipv6 [] s = s"
| "run ipv6 (c # cs) s = run ipv6 cs (step ipv6 c s)"

text \<open>
  Interrupts of the controller one after the other, each with its status, its pending
  frames and what the stack has to send.
\<close>

fun deliver :: "bool \<Rightarrow> (irq_status \<times> eth_frame list \<times> nat list) list \<Rightarrow> sys \<Rightarrow> sys" where
  "deliver ipv6 [] s = s"
| "deliver ipv6 ((status, pending, conns) # rest) s =
     deliver ipv6 rest (hw_irq ipv6 status pending conns s)"

text \<open>The calls after which the driver cancels nothing: bringing up, notification, poll.\<close>

definition quiet :: "call \<Rightarrow> bool" where
  "quiet c =
     (case c of
        C_ifup \<Rightarrow> True
      | C_txavail conns \<Rightarrow> True
      | C_expire w conns \<Rightarrow> w = TxPoll
      | _ \<Rightarrow> False)"


subsection \<open>Reading the log\<close>

text \<open>The events that a run from \<open>s\<close> to \<open>s'\<close> has added to the log.\<close>

definition new_events :: "sys \<Rightarrow> sys \<Rightarrow> event list" where
  "new_events s s' = drop (length (trace s)) (trace s')"

text \<open>
  The transmits that are outstanding after a log: every entry into \<open>skel_transmit\<close>
  admits one packet to the controller, and every completion by the controller ends
  one. A run of the TX-done handling or of the TX timeout handler ends none by itself,
  and no statement of the driver resets the controller.
\<close>

definition tx_count :: "nat \<Rightarrow> event \<Rightarrow> nat" where
  "tx_count n e =
     (if e = Enter F_transmit then Suc n
      else if e = HwTxDone then n - 1
      else n)"

definition tx_outstanding :: "event list \<Rightarrow> nat" where
  "tx_outstanding evs = foldl tx_count 0 evs"

definition timeout_armed :: "sys \<Rightarrow> bool" where
  "timeout_armed s = (sk_txtimeout s \<noteq> WdIdle)"

text \<open>Each watchdog, when started, carries the handler the driver starts it with.\<close>

definition wd_fn_ok :: "wd_entry \<Rightarrow> wdog \<Rightarrow> bool" where
  "wd_fn_ok f w = (case w of WdIdle \<Rightarrow> True | WdArmed delay g \<Rightarrow> g = f)"

definition wd_wf :: "sys \<Rightarrow> bool" where
  "wd_wf s = (wd_fn_ok PollTimerFn (sk_txpoll s) \<and> wd_fn_ok TxTimeoutFn (sk_txtimeout s))"

text \<open>The events of one call of \<open>skel_uiptxpoll\<close> with \<open>d_len = n\<close>, and of a whole walk.\<close>

definition txpoll_events :: "nat \<Rightarrow> event list" where
  "txpoll_events n =
     (if n > 0
      then [Enter F_uiptxpoll, EvUipArpOut, Enter F_transmit,
            EvWdStart TxTimeout skeleton_TXTIMEOUT TxTimeoutFn]
      else [Enter F_uiptxpoll])"

definition walk_events :: "nat list \<Rightarrow> event list" where
  "walk_events conns = concat (map txpoll_events conns)"

text \<open>
  The TX timeout watchdog after a walk: started if some connection had data (each one
  is transmitted), otherwise as before.
\<close>

definition walk_timeout :: "nat list \<Rightarrow> wdog \<Rightarrow> wdog" where
  "walk_timeout conns w =
     (if \<exists>n\<in>set conns. 0 < n then WdArmed skeleton_TXTIMEOUT TxTimeoutFn else w)"

text \<open>The events of one pass of the receive loop over the buffer \<open>f\<close>.\<close>

definition pass_events :: "bool \<Rightarrow> eth_frame \<Rightarrow> event list" where
  "pass_events ipv6 f =
     (if eth_type f = htons (if ipv6 then UIP_ETHTYPE_IP6 else UIP_ETHTYPE_IP)
      then [EvUipArpIpin, EvUipInput]
           @ (if 0 < stack_len f
              then [EvUipArpOut, Enter F_transmit,
                    EvWdStart TxTimeout skeleton_TXTIMEOUT TxTimeoutFn]
              else [])
      else if eth_type f = htons UIP_ETHTYPE_ARP
      then [EvUipArpArpin]
           @ (if 0 < stack_len f
              then [Enter F_transmit, EvWdStart TxTimeout skeleton_TXTIMEOUT TxTimeoutFn]
              else [])
      else [])"

text \<open>The TX timeout watchdog is started only while a transmit is outstanding.\<close>

definition armed_covered :: "sys \<Rightarrow> bool" where
  "armed_covered s = (timeout_armed s \<longrightarrow> 0 < tx_outstanding (trace s))"

text \<open>Every outstanding transmit is covered by the started TX timeout watchdog.\<close>

definition outstanding_covered :: "sys \<Rightarrow> bool" where
  "outstanding_covered s = (0 < tx_outstanding (trace s) \<longrightarrow> timeout_armed s)"

text \<open>
  The interrupt line of the controller is enabled exactly while the interface is up,
  and both watchdogs are idle while it is down.
\<close>

definition irq_gate :: "sys \<Rightarrow> bool" where
  "irq_gate s = (irq_line s = sk_bifup s)"

definition down_idle :: "sys \<Rightarrow> bool" where
  "down_idle s = (\<not> sk_bifup s \<longrightarrow> sk_txpoll s = WdIdle \<and> sk_txtimeout s = WdIdle)"


text \<open>What a caller of the driver can observe of the device, the log apart.\<close>

definition device_state :: "sys \<Rightarrow> bool \<times> wdog \<times> wdog \<times> uip_driver_s \<times> bool \<times> bool" where
  "device_state s =
     (sk_bifup s, sk_txpoll s, sk_txtimeout s, sk_dev s, irq_line s, cpu_irq_off s)"

subsection \<open>Concrete states and frames\<close>

definition no_frame :: eth_frame where
  "no_frame = \<lparr>eth_type = 0, frame_len = 0, stack_len = 0\<rparr>"

definition arp_request :: eth_frame where
  "arp_request = \<lparr>eth_type = htons UIP_ETHTYPE_ARP, frame_len = 60, stack_len = 28\<rparr>"

definition ip_packet :: eth_frame where
  "ip_packet = \<lparr>eth_type = htons UIP_ETHTYPE_IP, frame_len = 98, stack_len = 98\<rparr>"

text \<open>The interface down, as after \<open>skel_ifdown\<close>, and up, as after \<open>skel_ifup\<close>.\<close>

definition sys_down :: sys where
  "sys_down = \<lparr>sk_bifup = False, sk_txpoll = WdIdle, sk_txtimeout = WdIdle,
     sk_dev = \<lparr>d_buf = no_frame, d_len = 0\<rparr>,
     irq_line = False, cpu_irq_off = False, trace = []\<rparr>"

definition sys_up :: sys where
  "sys_up = \<lparr>sk_bifup = True, sk_txpoll = WdArmed skeleton_WDDELAY PollTimerFn,
     sk_txtimeout = WdIdle,
     sk_dev = \<lparr>d_buf = no_frame, d_len = 0\<rparr>,
     irq_line = True, cpu_irq_off = False, trace = []\<rparr>"

text \<open>Whether a pass of the receive loop over the buffer \<open>f\<close> enters the stack.\<close>

definition pass_handled :: "bool \<Rightarrow> eth_frame \<Rightarrow> bool" where
  "pass_handled ipv6 f =
     (eth_type f = htons (if ipv6 then UIP_ETHTYPE_IP6 else UIP_ETHTYPE_IP)
      \<or> eth_type f = htons UIP_ETHTYPE_ARP)"

definition tx_ok :: "sys \<Rightarrow> bool" where
  "tx_ok s = (wd_wf s \<and> irq_gate s \<and> down_idle s \<and> armed_covered s)"

definition tx_tight :: "sys \<Rightarrow> bool" where
  "tx_tight s = (tx_ok s \<and> outstanding_covered s)"

text \<open>The interface up, its interrupt line enabled, the poll watchdog with its handler.\<close>

definition up_ready :: "sys \<Rightarrow> bool" where
  "up_ready s = (sk_bifup s \<and> irq_line s \<and> wd_fn_ok PollTimerFn (sk_txpoll s))"

text \<open>The interface up and one transmit in flight.\<close>

definition tx_in_flight :: sys where
  "tx_in_flight = snd (skel_transmit sys_up)"

text \<open>An ARP frame that the stack does not answer.\<close>

definition arp_reply :: eth_frame where
  "arp_reply = \<lparr>eth_type = htons UIP_ETHTYPE_ARP, frame_len = 60, stack_len = 0\<rparr>"

text \<open>The status of the controller at an interrupt for reception only, and for TX-done only.\<close>

definition rx_only :: irq_status where
  "rx_only = \<lparr>rx_ready = True, tx_done = False\<rparr>"

definition tx_only :: irq_status where
  "tx_only = \<lparr>rx_ready = False, tx_done = True\<rparr>"


section \<open>Properties\<close>

subsection \<open>The functions in closed form\<close>

lemmas prim_defs = log_def wd_set_def wd_get_def wd_start_def wd_cancel_def irqsave_def
  irqrestore_def up_enable_irq_def up_disable_irq_def set_d_len_def uip_arp_ipin_def
  uip_input_def uip_arp_arpin_def uip_arp_out_def

lemma htons_vals:
  "htons UIP_ETHTYPE_ARP \<noteq> htons UIP_ETHTYPE_IP"
  "htons UIP_ETHTYPE_ARP \<noteq> htons UIP_ETHTYPE_IP6"
  by (simp_all add: htons_def UIP_ETHTYPE_ARP_def UIP_ETHTYPE_IP_def UIP_ETHTYPE_IP6_def)

lemma skel_uiptxpoll_eq:
  "skel_uiptxpoll (set_d_len n s) =
     (0, s\<lparr>sk_txtimeout := (if 0 < n then WdArmed skeleton_TXTIMEOUT TxTimeoutFn else sk_txtimeout s),
           sk_dev := (sk_dev s)\<lparr>d_len := n\<rparr>,
           trace := trace s @ txpoll_events n\<rparr>)"
  by (simp add: skel_uiptxpoll_def skel_transmit_def prim_defs txpoll_events_def Let_def)

lemma uip_walk_txpoll:
  "uip_walk skel_uiptxpoll conns s =
     (0, s\<lparr>sk_txtimeout := walk_timeout conns (sk_txtimeout s),
           sk_dev := (sk_dev s)\<lparr>d_len := last (d_len (sk_dev s) # conns)\<rparr>,
           trace := trace s @ walk_events conns\<rparr>)"
proof (induction conns arbitrary: s)
  case Nil
  show ?case by (simp add: walk_events_def walk_timeout_def)
next
  case (Cons n conns)
  show ?case
    by (auto simp add: skel_uiptxpoll_eq Cons.IH walk_events_def walk_timeout_def)
qed

lemma skel_txdone_eq:
  "skel_txdone conns s =
     s\<lparr>sk_txtimeout := walk_timeout conns WdIdle,
       sk_dev := (sk_dev s)\<lparr>d_len := last (d_len (sk_dev s) # conns)\<rparr>,
       trace := trace s @ [Enter F_txdone, EvWdCancel TxTimeout, EvUipPoll] @ walk_events conns\<rparr>"
  by (simp add: skel_txdone_def uip_poll_def uip_walk_txpoll prim_defs)

lemma skel_txtimeout_eq:
  "skel_txtimeout conns s =
     s\<lparr>sk_txtimeout := walk_timeout conns (sk_txtimeout s),
       sk_dev := (sk_dev s)\<lparr>d_len := last (d_len (sk_dev s) # conns)\<rparr>,
       trace := trace s @ [Enter F_txtimeout, EvUipPoll] @ walk_events conns\<rparr>"
  by (simp add: skel_txtimeout_def uip_poll_def uip_walk_txpoll prim_defs)

lemma skel_polltimer_eq:
  "skel_polltimer conns s =
     s\<lparr>sk_txpoll := WdArmed skeleton_WDDELAY PollTimerFn,
       sk_txtimeout := walk_timeout conns (sk_txtimeout s),
       sk_dev := (sk_dev s)\<lparr>d_len := last (d_len (sk_dev s) # conns)\<rparr>,
       trace := trace s @ [Enter F_polltimer, EvUipTimer skeleton_POLLHSEC] @ walk_events conns
                @ [EvWdStart TxPoll skeleton_WDDELAY PollTimerFn]\<rparr>"
  by (simp add: skel_polltimer_def uip_timer_def uip_walk_txpoll prim_defs)

lemma skel_txavail_eq:
  "skel_txavail conns s =
     (OK, if sk_bifup s
          then s\<lparr>sk_txtimeout := walk_timeout conns (sk_txtimeout s),
                 sk_dev := (sk_dev s)\<lparr>d_len := last (d_len (sk_dev s) # conns)\<rparr>,
                 trace := trace s @ [Enter F_txavail, EvIrqSave, EvUipPoll] @ walk_events conns
                          @ [EvIrqRestore]\<rparr>
          else s\<lparr>trace := trace s @ [Enter F_txavail, EvIrqSave, EvIrqRestore]\<rparr>)"
  by (simp add: skel_txavail_def uip_poll_def uip_walk_txpoll prim_defs)

lemma skel_ifdown_eq:
  "skel_ifdown s =
     (OK, s\<lparr>sk_bifup := False, sk_txpoll := WdIdle, sk_txtimeout := WdIdle, irq_line := False,
            trace := trace s @ [Enter F_ifdown, EvIrqSave, EvUpDisableIrq, EvWdCancel TxPoll,
                                EvWdCancel TxTimeout, EvIrqRestore]\<rparr>)"
  by (simp add: skel_ifdown_def prim_defs)

lemma skel_ifup_eq:
  "skel_ifup s =
     (OK, s\<lparr>sk_bifup := True, sk_txpoll := WdArmed skeleton_WDDELAY PollTimerFn, irq_line := True,
            trace := trace s @ [Enter F_ifup, EvNdbg, EvWdStart TxPoll skeleton_WDDELAY PollTimerFn,
                                EvUpEnableIrq]\<rparr>)"
  by (simp add: skel_ifup_def prim_defs Let_def)

lemma skel_transmit_eq:
  "skel_transmit s =
     (OK, s\<lparr>sk_txtimeout := WdArmed skeleton_TXTIMEOUT TxTimeoutFn,
            trace := trace s @ [Enter F_transmit, EvWdStart TxTimeout skeleton_TXTIMEOUT TxTimeoutFn]\<rparr>)"
  by (simp add: skel_transmit_def prim_defs)

subsection \<open>The receive loop\<close>

lemma skel_receive_pass_eq:
  "skel_receive_pass ipv6 s =
     s\<lparr>sk_txtimeout := (if pass_handled ipv6 (d_buf (sk_dev s)) \<and> 0 < stack_len (d_buf (sk_dev s))
                         then WdArmed skeleton_TXTIMEOUT TxTimeoutFn else sk_txtimeout s),
       sk_dev := (if pass_handled ipv6 (d_buf (sk_dev s))
                  then (sk_dev s)\<lparr>d_len := stack_len (d_buf (sk_dev s))\<rparr> else sk_dev s),
       trace := trace s @ pass_events ipv6 (d_buf (sk_dev s))\<rparr>"
  by (simp add: skel_receive_pass_def skel_transmit_eq prim_defs pass_events_def pass_handled_def
      Let_def)

lemma skel_receive_loop_preserves:
  assumes step: "\<And>q t. P t \<Longrightarrow> P (skel_receive_pass ipv6 (hw_receive_into q t))"
    and init: "P s"
  shows "P (skel_receive_loop ipv6 pending s)"
  using init
proof (induction pending arbitrary: s)
  case Nil
  then show ?case
    by (simp add: skel_receive_loop.simps [of ipv6 "[]"] Let_def step)
next
  case (Cons f rest)
  have pass: "P (skel_receive_pass ipv6 (hw_receive_into q s))" for q
    using Cons.prems by (rule step)
  show ?case
    by (simp add: skel_receive_loop.simps [of ipv6 "f # rest"] Let_def Cons.IH pass)
qed

lemma wd_fn_ok_simps:
  "wd_fn_ok f WdIdle"
  "wd_fn_ok f (WdArmed d g) = (g = f)"
  by (simp_all add: wd_fn_ok_def)

subsection \<open>The TX timeout watchdog and the outstanding transmits\<close>

lemma tx_outstanding_append:
  "tx_outstanding (xs @ ys) = foldl tx_count (tx_outstanding xs) ys"
  by (simp add: tx_outstanding_def)

lemma tx_count_walk_events:
  "foldl tx_count n (walk_events conns) = n + length (filter (\<lambda>k. 0 < k) conns)"
  by (induction conns arbitrary: n) (simp_all add: walk_events_def txpoll_events_def tx_count_def)

lemma tx_count_pass_events:
  "foldl tx_count n (pass_events ipv6 f) =
     (if pass_handled ipv6 f \<and> 0 < stack_len f then Suc n else n)"
  by (simp add: pass_events_def pass_handled_def tx_count_def)

lemma walk_timeout_armed:
  "(walk_timeout conns w \<noteq> WdIdle) = (w \<noteq> WdIdle \<or> 0 < length (filter (\<lambda>k. 0 < k) conns))"
  by (auto simp: walk_timeout_def filter_empty_conv)

lemma wd_fn_ok_walk_timeout:
  "wd_fn_ok TxTimeoutFn w \<Longrightarrow> wd_fn_ok TxTimeoutFn (walk_timeout conns w)"
  by (simp add: walk_timeout_def wd_fn_ok_simps)

text \<open>Unfolding for the evaluation of concrete runs.\<close>

lemmas eval_defs = sys_down_def sys_up_def no_frame_def arp_request_def ip_packet_def
  tx_outstanding_def tx_count_def timeout_armed_def wd_wf_def wd_fn_ok_def
  walk_events_def txpoll_events_def walk_timeout_def

lemma up_ready_receive:
  "up_ready s \<Longrightarrow> up_ready (skel_receive ipv6 pending s)"
  unfolding skel_receive_def
proof (rule skel_receive_loop_preserves)
  fix q t
  assume "up_ready t"
  then show "up_ready (skel_receive_pass ipv6 (hw_receive_into q t))"
    by (simp add: up_ready_def skel_receive_pass_eq hw_receive_into_def log_def
        split: list.splits)
next
  assume "up_ready s"
  then show "up_ready (log (Enter F_receive) s)"
    by (simp add: up_ready_def log_def)
qed

text \<open>
  After the interrupt handler the watchdog is started only if the poll of the TX-done
  handling has transmitted, whatever was outstanding before.
\<close>

lemma tx_ok_interrupt:
  assumes "up_ready s"
  shows "tx_ok (snd (skel_interrupt ipv6 status pending conns s))"
proof -
  have "up_ready (log (Enter F_interrupt) s)"
    using assms by (simp add: up_ready_def log_def)
  then have "up_ready (skel_receive ipv6 pending (log (Enter F_interrupt) s))"
    by (rule up_ready_receive)
  then show ?thesis
    by (simp add: skel_interrupt_def skel_txdone_eq up_ready_def tx_ok_def wd_wf_def
        irq_gate_def down_idle_def armed_covered_def timeout_armed_def tx_outstanding_append
        tx_count_walk_events tx_count_def walk_timeout_armed wd_fn_ok_walk_timeout
        wd_fn_ok_simps)
qed

lemma tx_ok_irq:
  assumes "tx_ok s"
  shows "tx_ok (hw_irq ipv6 status pending conns (hw_tx_complete status s))"
proof (cases "irq_line s")
  case True
  then have "up_ready (hw_tx_complete status s)"
    using assms by (simp add: up_ready_def tx_ok_def irq_gate_def wd_wf_def
        hw_tx_complete_def log_def)
  then have "tx_ok (snd (skel_interrupt ipv6 status pending conns (hw_tx_complete status s)))"
    by (rule tx_ok_interrupt)
  then show ?thesis
    using True by (simp add: hw_irq_def hw_tx_complete_def log_def)
next
  case False
  then show ?thesis
    using assms by (simp add: hw_irq_def hw_tx_complete_def log_def tx_ok_def irq_gate_def
        wd_wf_def down_idle_def armed_covered_def timeout_armed_def wd_fn_ok_simps)
qed

lemma tx_ok_expire:
  "tx_ok s \<Longrightarrow> tx_ok (wd_expire w conns s)"
  by (cases w; cases "sk_txpoll s"; cases "sk_txtimeout s")
     (auto simp: tx_ok_def irq_gate_def down_idle_def armed_covered_def timeout_armed_def
      wd_wf_def wd_fn_ok_simps
      wd_expire_def wd_get_def wd_set_def wd_handler_def skel_polltimer_eq skel_txtimeout_eq
      tx_outstanding_append tx_count_walk_events tx_count_def walk_timeout_armed
      wd_fn_ok_walk_timeout)

lemma tx_ok_step:
  assumes "tx_ok s"
  shows "tx_ok (step ipv6 c s)"
proof (cases c)
  case C_ifup
  then show ?thesis
    using assms
    by (simp add: tx_ok_def irq_gate_def down_idle_def armed_covered_def timeout_armed_def
        wd_wf_def wd_fn_ok_simps skel_ifup_eq tx_outstanding_append tx_count_def)
next
  case C_ifdown
  then show ?thesis
    using assms
    by (simp add: tx_ok_def irq_gate_def down_idle_def armed_covered_def timeout_armed_def
        wd_wf_def wd_fn_ok_simps skel_ifdown_eq tx_outstanding_append tx_count_def)
next
  case (C_txavail conns)
  then show ?thesis
    using assms
    by (auto simp: tx_ok_def irq_gate_def down_idle_def armed_covered_def timeout_armed_def
        wd_wf_def skel_txavail_eq tx_outstanding_append tx_count_walk_events tx_count_def
        walk_timeout_armed wd_fn_ok_walk_timeout wd_fn_ok_simps)
next
  case (C_irq status pending conns)
  then show ?thesis
    using assms by (simp add: tx_ok_irq)
next
  case (C_expire w conns)
  then show ?thesis
    using assms by (simp add: tx_ok_expire)
qed

lemma tx_ok_run:
  "tx_ok s \<Longrightarrow> tx_ok (run ipv6 calls s)"
  by (induction calls arbitrary: s) (simp_all add: tx_ok_step)

lemma tx_tight_step:
  assumes "tx_tight s" and "quiet c"
  shows "tx_tight (step ipv6 c s)"
proof -
  have ok: "tx_ok (step ipv6 c s)"
    using assms(1) by (simp add: tx_tight_def tx_ok_step)
  have "outstanding_covered (step ipv6 c s)"
  proof (cases c)
    case C_ifup
    then show ?thesis
      using assms(1)
      by (simp add: tx_tight_def outstanding_covered_def timeout_armed_def skel_ifup_eq
          tx_outstanding_append tx_count_def)
  next
    case C_ifdown
    then show ?thesis
      using assms(2) by (simp add: quiet_def)
  next
    case (C_txavail conns)
    then show ?thesis
      using assms(1)
      by (auto simp: tx_tight_def outstanding_covered_def timeout_armed_def skel_txavail_eq
          tx_outstanding_append tx_count_walk_events tx_count_def walk_timeout_armed)
  next
    case (C_irq status pending conns)
    then show ?thesis
      using assms(2) by (simp add: quiet_def)
  next
    case (C_expire w conns)
    then have w: "w = TxPoll"
      using assms(2) by (simp add: quiet_def)
    show ?thesis
      using assms(1)
      by (cases "sk_txpoll s")
         (auto simp: C_expire w tx_tight_def tx_ok_def wd_wf_def wd_fn_ok_simps
          outstanding_covered_def timeout_armed_def wd_expire_def wd_get_def wd_set_def
          wd_handler_def skel_polltimer_eq tx_outstanding_append tx_count_walk_events
          tx_count_def walk_timeout_armed)
  qed
  then show ?thesis
    using ok by (simp add: tx_tight_def)
qed

lemma tx_tight_run:
  "tx_tight s \<Longrightarrow> list_all quiet calls \<Longrightarrow> tx_tight (run ipv6 calls s)"
  by (induction calls arbitrary: s) (simp_all add: tx_tight_step)

text \<open>
  C1, as amended. A transmit is outstanding from its admission (the entry into
  \<open>skel_transmit\<close>) until the controller completes it; several can be outstanding at
  once. Every admission starts the TX timeout watchdog. In every state that the driver
  reaches by its callbacks, interrupts and watchdog expiries, the watchdog is started
  only while at least one transmit is outstanding. As long as the driver is only
  brought up, notified and polled, the converse holds too: the watchdog stays started
  while a transmit is outstanding. Whether the watchdog is still started for a transmit
  that is outstanding after an interrupt, a timeout or \<open>skel_ifdown\<close> is not stated.
\<close>

theorem timeout_armed_only_while_outstanding:
  assumes "wd_wf s" and "irq_line s = sk_bifup s"
    and "\<not> sk_bifup s \<longrightarrow> sk_txpoll s = WdIdle \<and> sk_txtimeout s = WdIdle"
    and "timeout_armed s \<longrightarrow> 0 < tx_outstanding (trace s)"
  shows "timeout_armed (snd (skel_transmit s))
         \<and> tx_outstanding (trace (snd (skel_transmit s))) = Suc (tx_outstanding (trace s))
         \<and> (timeout_armed (run ipv6 calls s) \<longrightarrow> 0 < tx_outstanding (trace (run ipv6 calls s)))
         \<and> (list_all quiet calls \<and> (0 < tx_outstanding (trace s) \<longrightarrow> timeout_armed s) \<longrightarrow>
              (0 < tx_outstanding (trace (run ipv6 calls s)) \<longrightarrow> timeout_armed (run ipv6 calls s)))"
proof -
  have ok: "tx_ok s"
    using assms by (simp add: tx_ok_def irq_gate_def down_idle_def armed_covered_def)
  have "tx_ok (run ipv6 calls s)"
    using ok by (rule tx_ok_run)
  then have covered:
    "timeout_armed (run ipv6 calls s) \<longrightarrow> 0 < tx_outstanding (trace (run ipv6 calls s))"
    by (simp add: tx_ok_def armed_covered_def)
  have tight:
    "0 < tx_outstanding (trace (run ipv6 calls s)) \<longrightarrow> timeout_armed (run ipv6 calls s)"
    if "list_all quiet calls" and "0 < tx_outstanding (trace s) \<longrightarrow> timeout_armed s"
  proof -
    have "tx_tight s"
      using ok that(2) by (simp add: tx_tight_def outstanding_covered_def)
    then have "tx_tight (run ipv6 calls s)"
      using that(1) by (rule tx_tight_run)
    then show ?thesis
      by (simp add: tx_tight_def outstanding_covered_def)
  qed
  show ?thesis
    using covered tight
    by (simp add: skel_transmit_eq timeout_armed_def tx_outstanding_append tx_count_def)
qed

text \<open>
  A run for C1: from the interface down and nothing outstanding, the interface is
  brought up and a notification transmits one packet; the watchdog is started and one
  transmit is outstanding.
\<close>

theorem timeout_armed_only_while_outstanding_witness:
  "wd_wf sys_down \<and> irq_line sys_down = sk_bifup sys_down
   \<and> sk_txpoll sys_down = WdIdle \<and> sk_txtimeout sys_down = WdIdle
   \<and> \<not> timeout_armed sys_down \<and> tx_outstanding (trace sys_down) = 0
   \<and> quiet C_ifup \<and> quiet (C_txavail [64])
   \<and> timeout_armed (run False [C_ifup, C_txavail [64]] sys_down)
   \<and> 0 < tx_outstanding (trace (run False [C_ifup, C_txavail [64]] sys_down))
   \<and> timeout_armed (snd (skel_transmit sys_down))"
  using timeout_armed_only_while_outstanding [of sys_down False "[C_ifup, C_txavail [64]]"]
  by (simp add: eval_defs quiet_def skel_ifup_eq skel_txavail_eq)

text \<open>
  C1 as stated fails: after the interface is up, a notification whose poll finds two
  connections with data transmits both, since \<open>skel_uiptxpoll\<close> never stops the walk.
  The watchdog is started and two transmits are outstanding, not one.
\<close>

theorem two_transmits_outstanding_counterexample:
  "timeout_armed (run False [C_ifup, C_txavail [64, 1500]] sys_down)
   \<and> tx_outstanding (trace (run False [C_ifup, C_txavail [64, 1500]] sys_down)) = 2
   \<and> \<not> (timeout_armed (run False [C_ifup, C_txavail [64, 1500]] sys_down)
        = (tx_outstanding (trace (run False [C_ifup, C_txavail [64, 1500]] sys_down)) = 1))"
  by (simp add: eval_defs skel_ifup_eq skel_txavail_eq)

subsection \<open>The interrupt line and the interface flag\<close>

text \<open>Unfolding for the evaluation of the receive loop on a concrete queue.\<close>

lemmas loop_eval = skel_receive_def skel_receive_loop.simps hw_receive_into_def
  skel_receive_pass_eq pass_handled_def pass_events_def log_def Let_def

lemma irq_gate_receive:
  "irq_gate s \<Longrightarrow> irq_gate (skel_receive ipv6 pending s)"
  unfolding skel_receive_def
proof (rule skel_receive_loop_preserves)
  fix q t
  assume "irq_gate t"
  then show "irq_gate (skel_receive_pass ipv6 (hw_receive_into q t))"
    by (simp add: irq_gate_def skel_receive_pass_eq hw_receive_into_def log_def
        split: list.splits)
next
  assume "irq_gate s"
  then show "irq_gate (log (Enter F_receive) s)"
    by (simp add: irq_gate_def log_def)
qed

lemma irq_gate_interrupt:
  assumes "irq_gate s"
  shows "irq_gate (snd (skel_interrupt ipv6 status pending conns s))"
proof -
  have "irq_gate (log (Enter F_interrupt) s)"
    using assms by (simp add: irq_gate_def log_def)
  then have "irq_gate (skel_receive ipv6 pending (log (Enter F_interrupt) s))"
    by (rule irq_gate_receive)
  then show ?thesis
    by (simp add: skel_interrupt_def skel_txdone_eq irq_gate_def)
qed

lemma irq_gate_expire:
  "irq_gate s \<Longrightarrow> irq_gate (wd_expire w conns s)"
  by (cases w; cases "sk_txpoll s"; cases "sk_txtimeout s")
     (auto simp: irq_gate_def wd_expire_def wd_get_def wd_set_def wd_handler_def
      skel_polltimer_eq skel_txtimeout_eq split: wd_entry.splits)

lemma irq_gate_step:
  "irq_gate s \<Longrightarrow> irq_gate (step ipv6 c s)"
proof (cases c)
  case (C_irq status pending conns)
  assume "irq_gate s"
  then have "irq_gate (hw_tx_complete status s)"
    by (simp add: irq_gate_def hw_tx_complete_def log_def)
  then show ?thesis
    by (simp add: C_irq hw_irq_def irq_gate_interrupt)
next
  case (C_expire w conns)
  assume "irq_gate s"
  then show ?thesis
    by (simp add: C_expire irq_gate_expire)
qed (simp_all add: irq_gate_def skel_ifup_eq skel_ifdown_eq skel_txavail_eq)

lemma irq_gate_run:
  "irq_gate s \<Longrightarrow> irq_gate (run ipv6 calls s)"
  by (induction calls arbitrary: s) (simp_all add: irq_gate_step)

lemma deliver_line_disabled:
  "\<not> irq_line s \<Longrightarrow> deliver ipv6 irqs s = s"
  by (induction ipv6 irqs s rule: deliver.induct) (simp_all add: hw_irq_def)

text \<open>
  C2. \<open>skel_ifup\<close> enables the interrupt line of the controller and \<open>skel_ifdown\<close>
  disables it, so in every state the driver reaches the line is enabled exactly when
  \<open>sk_bifup\<close> is set. While the interface is down the controller therefore cannot run
  the handler: whatever interrupts it raises and whatever frames are pending at each,
  no frame is handed to \<open>uip_input\<close> or \<open>uip_arp_arpin\<close>, and the state does not change.
\<close>

theorem no_frame_reaches_stack_while_down:
  assumes "irq_line s = sk_bifup s" and "\<not> sk_bifup (run ipv6 calls s)"
  shows "deliver ipv6 irqs (run ipv6 calls s) = run ipv6 calls s
         \<and> EvUipInput \<notin> set (new_events (run ipv6 calls s) (deliver ipv6 irqs (run ipv6 calls s)))
         \<and> EvUipArpArpin \<notin> set (new_events (run ipv6 calls s) (deliver ipv6 irqs (run ipv6 calls s)))"
proof -
  have "irq_gate s"
    using assms(1) by (simp add: irq_gate_def)
  then have "irq_gate (run ipv6 calls s)"
    by (rule irq_gate_run)
  then have "\<not> irq_line (run ipv6 calls s)"
    using assms(2) by (simp add: irq_gate_def)
  then have "deliver ipv6 irqs (run ipv6 calls s) = run ipv6 calls s"
    by (rule deliver_line_disabled)
  then show ?thesis
    by (simp add: new_events_def)
qed

text \<open>
  A run for C2: the interface is up, is notified of data and is taken down; two
  interrupts with IP and ARP frames pending then change nothing.
\<close>

theorem no_frame_reaches_stack_while_down_witness:
  "irq_line sys_up = sk_bifup sys_up
   \<and> \<not> sk_bifup (run False [C_txavail [64], C_ifdown] sys_up)
   \<and> deliver False [(rx_only, [ip_packet], []), (rx_only, [arp_request, ip_packet], [64])]
        (run False [C_txavail [64], C_ifdown] sys_up)
      = run False [C_txavail [64], C_ifdown] sys_up"
  using no_frame_reaches_stack_while_down [of sys_up False "[C_txavail [64], C_ifdown]"
      "[(rx_only, [ip_packet], []), (rx_only, [arp_request, ip_packet], [64])]"]
  by (simp add: sys_up_def skel_txavail_eq skel_ifdown_eq)

subsection \<open>The interrupt handler and the status of the controller\<close>

lemma htons_nonzero:
  "htons UIP_ETHTYPE_ARP \<noteq> 0"
  "htons UIP_ETHTYPE_IP \<noteq> 0"
  "htons UIP_ETHTYPE_IP6 \<noteq> 0"
  by (simp_all add: htons_def UIP_ETHTYPE_ARP_def UIP_ETHTYPE_IP_def UIP_ETHTYPE_IP6_def)

text \<open>
  C3, at two inputs where the code departs from it. With a transmit in flight, an
  interrupt for reception only (one ARP frame pending, nothing to send) still runs the
  TX-done handling: the TX timeout watchdog is cancelled although no transmit has
  completed. An interrupt for TX-done only, with no frame pending, still runs a pass of
  the receive loop. In both, the receive loop is finished before the TX-done handling
  begins, and that handling cancels the watchdog and then polls once.
\<close>

theorem skel_interrupt_ignores_status:
  "timeout_armed tx_in_flight
   \<and> new_events tx_in_flight (snd (skel_interrupt False rx_only [arp_reply] [] tx_in_flight))
      = [Enter F_interrupt, Enter F_receive, RxPass (Some arp_reply), EvUipArpArpin,
         Enter F_txdone, EvWdCancel TxTimeout, EvUipPoll]
   \<and> \<not> timeout_armed (snd (skel_interrupt False rx_only [arp_reply] [] tx_in_flight))
   \<and> new_events tx_in_flight (snd (skel_interrupt False tx_only [] [] tx_in_flight))
      = [Enter F_interrupt, Enter F_receive, RxPass None,
         Enter F_txdone, EvWdCancel TxTimeout, EvUipPoll]"
  by (simp add: new_events_def skel_interrupt_def skel_txdone_eq loop_eval eval_defs
      tx_in_flight_def skel_transmit_eq arp_reply_def htons_vals htons_nonzero)

subsection \<open>Termination and passes of the receive loop\<close>







subsection \<open>ARP frames\<close>



subsection \<open>The poll timer\<close>

lemma count_walk_events:
  "count_list (walk_events conns) (Enter F_polltimer) = 0"
  "count_list (walk_events conns) EvUipPoll = 0"
  "count_list (walk_events conns) (Enter F_uiptxpoll) = length conns"
  "count_list (walk_events conns) (Enter F_transmit) = length (filter (\<lambda>n. 0 < n) conns)"
  by (induction conns) (simp_all add: walk_events_def txpoll_events_def)





subsection \<open>The TX timeout handler\<close>

text \<open>
  C7, where the code departs from it. The TX timeout handler enters the stack's poll
  once and has no other statement: with no data to send, its whole effect is the call
  of \<open>uip_poll\<close>. Nothing resets the controller. The handler does not start the
  watchdog itself: after the expiry of the watchdog of a transmit in flight, with no
  data to send, the watchdog is idle.
\<close>

theorem skel_txtimeout_only_polls:
  "skel_txtimeout [] s = s\<lparr>trace := trace s @ [Enter F_txtimeout, EvUipPoll]\<rparr>
   \<and> wd_expire TxTimeout [] tx_in_flight
     = tx_in_flight\<lparr>sk_txtimeout := WdIdle,
         trace := trace tx_in_flight @ [Enter F_txtimeout, EvUipPoll]\<rparr>"
  by (simp add: skel_txtimeout_eq walk_timeout_def walk_events_def wd_expire_def wd_get_def
      wd_set_def wd_handler_def tx_in_flight_def skel_transmit_eq sys_up_def)

subsection \<open>Notification of new data\<close>

lemma walk_events_no_irq:
  "EvIrqSave \<notin> set (walk_events conns)"
  "EvIrqRestore \<notin> set (walk_events conns)"
  by (induction conns) (simp_all add: walk_events_def txpoll_events_def)

text \<open>
  C8. \<open>skel_txavail\<close> returns OK and leaves the interrupt flag of the CPU as it found
  it. With the interface down it changes nothing: it only saves and restores the
  interrupt flag, with no poll, no transmit and no call that touches the controller.
  With the interface up it enters the stack's poll exactly once, and everything it does
  lies between \<open>irqsave\<close> and \<open>irqrestore\<close>.
\<close>

theorem skel_txavail_gated:
  "fst (skel_txavail conns s) = OK
   \<and> cpu_irq_off (snd (skel_txavail conns s)) = cpu_irq_off s
   \<and> (\<not> sk_bifup s \<longrightarrow>
        snd (skel_txavail conns s)
          = s\<lparr>trace := trace s @ [Enter F_txavail, EvIrqSave, EvIrqRestore]\<rparr>)
   \<and> (sk_bifup s \<longrightarrow>
        new_events s (snd (skel_txavail conns s))
          = [Enter F_txavail, EvIrqSave, EvUipPoll] @ walk_events conns @ [EvIrqRestore]
        \<and> count_list (new_events s (snd (skel_txavail conns s))) EvUipPoll = 1
        \<and> EvIrqSave \<notin> set (EvUipPoll # walk_events conns)
        \<and> EvIrqRestore \<notin> set (EvUipPoll # walk_events conns))"
  by (simp add: skel_txavail_eq new_events_def count_walk_events walk_events_no_irq)

text \<open>A notification with the interface down, and one with the interface up.\<close>

theorem skel_txavail_gated_witness:
  "\<not> sk_bifup sys_down
   \<and> snd (skel_txavail [64] sys_down)
     = sys_down\<lparr>trace := [Enter F_txavail, EvIrqSave, EvIrqRestore]\<rparr>
   \<and> sk_bifup sys_up
   \<and> new_events sys_up (snd (skel_txavail [64] sys_up))
     = [Enter F_txavail, EvIrqSave, EvUipPoll, Enter F_uiptxpoll, EvUipArpOut, Enter F_transmit,
        EvWdStart TxTimeout skeleton_TXTIMEOUT TxTimeoutFn, EvIrqRestore]"
  using skel_txavail_gated [of "[64]" sys_down] skel_txavail_gated [of "[64]" sys_up]
  by (simp add: sys_down_def sys_up_def walk_events_def txpoll_events_def)

subsection \<open>Taking the interface down\<close>

text \<open>
  C9. From any state, also one in which the interface was never up, \<open>skel_ifdown\<close>
  returns OK and leaves the interface flag false, the interrupt line disabled and both
  watchdogs idle; a second call in a row leaves the same device state as the first.
  The second call cancels two idle watchdogs and does nothing beyond the six calls of
  the first; no call resets the controller.
\<close>

theorem skel_ifdown_idempotent:
  "device_state (snd (skel_ifdown (snd (skel_ifdown s)))) = device_state (snd (skel_ifdown s))
   \<and> device_state (snd (skel_ifdown s))
     = (False, WdIdle, WdIdle, sk_dev s, False, cpu_irq_off s)
   \<and> fst (skel_ifdown s) = OK
   \<and> fst (skel_ifdown (snd (skel_ifdown s))) = OK
   \<and> new_events (snd (skel_ifdown s)) (snd (skel_ifdown (snd (skel_ifdown s))))
     = [Enter F_ifdown, EvIrqSave, EvUpDisableIrq, EvWdCancel TxPoll, EvWdCancel TxTimeout,
        EvIrqRestore]"
  by (simp add: skel_ifdown_eq device_state_def new_events_def)

subsection \<open>The callback never stops the walk\<close>

text \<open>
  C10. \<open>skel_uiptxpoll\<close> returns 0 in every state, also when it has just handed a
  packet to \<open>skel_transmit\<close>. So a poll of the stack with this callback never stops
  early: the callback is called for every connection, and every connection with data
  is transmitted from the one buffer in the same walk.
\<close>

theorem skel_uiptxpoll_returns_zero:
  "fst (skel_uiptxpoll s) = 0
   \<and> fst (uip_poll skel_uiptxpoll conns s) = 0
   \<and> new_events s (snd (uip_poll skel_uiptxpoll conns s)) = EvUipPoll # walk_events conns
   \<and> count_list (new_events s (snd (uip_poll skel_uiptxpoll conns s))) (Enter F_uiptxpoll)
     = length conns
   \<and> count_list (new_events s (snd (uip_poll skel_uiptxpoll conns s))) (Enter F_transmit)
     = length (filter (\<lambda>n. 0 < n) conns)"
  by (simp add: skel_uiptxpoll_def Let_def uip_poll_def uip_walk_txpoll new_events_def log_def
      count_walk_events)

end
